theory Spec2Isabelle
  imports Complex_Main "HOL-Library.Sublist"
begin

section \<open>Python values used by the trading core\<close>

text \<open>
  Python floats are idealised: a finite float is a \<^typ>\<open>real\<close>, and rounding, overflow
  and signed zeros are not modelled.  The price series holds finite floats.  The values
  numpy computes from them can still be non-finite (the mean of an empty slice is
  \<open>nan\<close>, a division by zero is \<open>inf\<close> or \<open>nan\<close> with a warning, never an exception),
  so a numpy result is an \<open>npfloat\<close>.
\<close>

datatype py_error = IndexError | KeyError | TypeError | ValueError | AttributeError

datatype npfloat = Fin real | PosInf | NegInf | NaN

fun np_sub :: "npfloat \<Rightarrow> npfloat \<Rightarrow> npfloat" where
  "np_sub (Fin a) (Fin b) = Fin (a - b)"
| "np_sub NaN _ = NaN"
| "np_sub _ NaN = NaN"
| "np_sub PosInf PosInf = NaN"
| "np_sub NegInf NegInf = NaN"
| "np_sub PosInf _ = PosInf"
| "np_sub NegInf _ = NegInf"
| "np_sub (Fin a) PosInf = NegInf"
| "np_sub (Fin a) NegInf = PosInf"

fun np_add :: "npfloat \<Rightarrow> npfloat \<Rightarrow> npfloat" where
  "np_add (Fin a) (Fin b) = Fin (a + b)"
| "np_add NaN _ = NaN"
| "np_add _ NaN = NaN"
| "np_add PosInf NegInf = NaN"
| "np_add NegInf PosInf = NaN"
| "np_add PosInf _ = PosInf"
| "np_add NegInf _ = NegInf"
| "np_add (Fin a) PosInf = PosInf"
| "np_add (Fin a) NegInf = NegInf"

fun np_abs :: "npfloat \<Rightarrow> npfloat" where
  "np_abs (Fin a) = Fin \<bar>a\<bar>"
| "np_abs PosInf = PosInf"
| "np_abs NegInf = PosInf"
| "np_abs NaN = NaN"

fun np_neg :: "npfloat \<Rightarrow> npfloat" where
  "np_neg (Fin a) = Fin (- a)"
| "np_neg PosInf = NegInf"
| "np_neg NegInf = PosInf"
| "np_neg NaN = NaN"

text \<open>Division as numpy does it on float64: dividing by zero gives an infinity or
  \<open>nan\<close>, it does not raise.\<close>

fun np_div :: "npfloat \<Rightarrow> npfloat \<Rightarrow> npfloat" where
  "np_div (Fin a) (Fin b) =
     (if b \<noteq> 0 then Fin (a / b)
      else if 0 < a then PosInf else if a < 0 then NegInf else NaN)"
| "np_div NaN _ = NaN"
| "np_div _ NaN = NaN"
| "np_div (Fin a) _ = Fin 0"
| "np_div x (Fin b) = (if 0 \<le> b then x else np_neg x)"
| "np_div _ _ = NaN"

text \<open>Comparisons: every comparison with \<open>nan\<close> is false.\<close>

fun np_less :: "npfloat \<Rightarrow> npfloat \<Rightarrow> bool" where
  "np_less (Fin a) (Fin b) = (a < b)"
| "np_less NaN _ = False"
| "np_less _ NaN = False"
| "np_less NegInf NegInf = False"
| "np_less NegInf _ = True"
| "np_less PosInf _ = False"
| "np_less (Fin a) PosInf = True"
| "np_less (Fin a) NegInf = False"

definition np_greater :: "npfloat \<Rightarrow> npfloat \<Rightarrow> bool" where
  "np_greater x y = np_less y x"

text \<open>Python's builtin \<open>max(a, b)\<close> keeps \<open>a\<close> unless \<open>b > a\<close>, and \<open>min(a, b)\<close>
  keeps \<open>a\<close> unless \<open>b < a\<close>.\<close>

definition py_max :: "npfloat \<Rightarrow> npfloat \<Rightarrow> npfloat" where
  "py_max a b = (if np_greater b a then b else a)"

definition py_min :: "npfloat \<Rightarrow> npfloat \<Rightarrow> npfloat" where
  "py_min a b = (if np_less b a then b else a)"

text \<open>\<open>np.mean\<close> of a list of finite floats; the empty list gives \<open>nan\<close>.\<close>

definition np_mean :: "real list \<Rightarrow> npfloat" where
  "np_mean xs = (if xs = [] then NaN else Fin (sum_list xs / real (length xs)))"

text \<open>List indexing \<open>xs[i]\<close> and the slice \<open>xs[i:]\<close>, with Python's negative indices.\<close>

definition py_index :: "'a list \<Rightarrow> int \<Rightarrow> py_error + 'a" where
  "py_index xs i =
     (let k = (if i < 0 then int (length xs) + i else i)
      in if k < 0 \<or> int (length xs) \<le> k then Inl IndexError else Inr (xs ! nat k))"

definition py_slice_from :: "'a list \<Rightarrow> int \<Rightarrow> 'a list" where
  "py_slice_from xs i =
     (if i < 0 then drop (nat (int (length xs) + i)) xs else drop (nat i) xs)"

section \<open>The indicator engine: \<open>trading/ai_agent.py\<close>\<close>

type_synonym timestamp = string

record AIAgent =
  short_window :: int
  long_window :: int
  prices :: "real list"

text \<open>The reasoning text.  The two f-strings format both moving averages with
  \<open>:.2f\<close>; they are kept as the template together with its two arguments.\<close>

datatype reasoning =
    Text string
  | Short_above npfloat npfloat
  | Short_below npfloat npfloat

record recommendation =
  action :: string
  reasoning :: reasoning
  entry_price :: "real option"
  take_profit :: "real option"
  confidence :: npfloat
  timestamp :: timestamp

text \<open>\<open>AIAgent.__init__\<close>: stores both windows and starts with no prices.  The result
  type leaves room for a raised error; the constructor has no \<open>raise\<close>.\<close>

definition AIAgent_init :: "int \<Rightarrow> int \<Rightarrow> py_error + AIAgent" where
  "AIAgent_init sw lw = Inr \<lparr>short_window = sw, long_window = lw, prices = []\<rparr>"

text \<open>Methods take the object and return it with their result, so that what a method
  does to the object is part of the model.\<close>

definition calculate_moving_average :: "int \<Rightarrow> AIAgent \<Rightarrow> npfloat option \<times> AIAgent" where
  "calculate_moving_average window self =
     (if int (length (prices self)) < window then (None, self)
      else (Some (np_mean (py_slice_from (prices self) (- window))), self))"

definition add_price :: "real \<Rightarrow> AIAgent \<Rightarrow> AIAgent" where
  "add_price price self = self\<lparr>prices := prices self @ [price]\<rparr>"

text \<open>The two early returns of \<open>get_recommendation\<close> differ in their text only
  (\<open>hold_without_data\<close>); \<open>decide_action\<close> is the rest of its body, from the comment
  ``Calculate confidence based on MA difference'' on.\<close>

definition hold_without_data :: "string \<Rightarrow> timestamp \<Rightarrow> recommendation" where
  "hold_without_data why now =
     \<lparr>action = ''hold'', reasoning = Text why, entry_price = None, take_profit = None,
      confidence = Fin 0, timestamp = now\<rparr>"

definition decide_action ::
    "real \<Rightarrow> real \<Rightarrow> npfloat \<Rightarrow> npfloat \<Rightarrow> timestamp \<Rightarrow> recommendation" where
  "decide_action current_price prev_price short_ma long_ma now =
     (let ma_diff = np_div (np_abs (np_sub short_ma long_ma)) long_ma;
          conf = py_min (Fin 0.95) (py_max (Fin 0.5) (np_add (Fin 0.7) ma_diff))
      in if np_greater short_ma long_ma \<and> current_price > prev_price then
           \<lparr>action = ''buy'', reasoning = Short_above short_ma long_ma,
            entry_price = Some current_price, take_profit = Some (current_price * 1.05),
            confidence = conf, timestamp = now\<rparr>
         else if np_less short_ma long_ma \<and> current_price < prev_price then
           \<lparr>action = ''sell'', reasoning = Short_below short_ma long_ma,
            entry_price = Some current_price, take_profit = Some (current_price * 0.95),
            confidence = conf, timestamp = now\<rparr>
         else
           \<lparr>action = ''hold'', reasoning = Text ''No clear trend detected'',
            entry_price = None, take_profit = None, confidence = conf, timestamp = now\<rparr>)"

text \<open>\<open>AIAgent.get_recommendation\<close>; \<open>now\<close> is what \<open>datetime.now().isoformat()\<close>
  returns.  \<open>self.prices[-1]\<close> and \<open>self.prices[-2]\<close> raise \<open>IndexError\<close> on a series
  that is too short.\<close>

definition get_recommendation ::
    "timestamp \<Rightarrow> AIAgent \<Rightarrow> (py_error + recommendation) \<times> AIAgent" where
  "get_recommendation now self =
     (if int (length (prices self)) < long_window self then
        (Inr (hold_without_data ''Insufficient data for prediction'' now), self)
      else
        case py_index (prices self) (- 1) of
          Inl e \<Rightarrow> (Inl e, self)
        | Inr current_price \<Rightarrow>
        (case py_index (prices self) (- 2) of
          Inl e \<Rightarrow> (Inl e, self)
        | Inr prev_price \<Rightarrow>
        (case calculate_moving_average (short_window self) self of (short_ma, self1) \<Rightarrow>
        (case calculate_moving_average (long_window self1) self1 of (long_ma, self2) \<Rightarrow>
        (case (short_ma, long_ma) of
          (Some s, Some l) \<Rightarrow> (Inr (decide_action current_price prev_price s l now), self2)
        | _ \<Rightarrow> (Inr (hold_without_data ''Error calculating moving averages'' now), self2))))))"


subsection \<open>The engine as the specification words it\<close>











section \<open>The feed and the signal cycle: \<open>trading_signals.py\<close>\<close>

subsection \<open>Decoded JSON\<close>

text \<open>What \<open>json.loads\<close> returns.  A JSON object is the list of the items of the
  Python dict (keys distinct); numbers are finite.  A text that is not JSON makes
  \<open>json.loads\<close> raise \<open>JSONDecodeError\<close>, a \<open>ValueError\<close>.\<close>

datatype json =
    JNull
  | JBool bool
  | JNumber real
  | JString string
  | JArray "json list"
  | JObject "(string \<times> json) list"

datatype frame = Not_json | Json json

definition json_loads :: "frame \<Rightarrow> py_error + json" where
  "json_loads msg = (case msg of Not_json \<Rightarrow> Inl ValueError | Json data \<Rightarrow> Inr data)"

text \<open>\<open>"result" in data\<close>: key membership on a dict, element membership on a list,
  substring test on a string, \<open>TypeError\<close> on anything else.\<close>

definition py_in_result :: "json \<Rightarrow> py_error + bool" where
  "py_in_result data =
     (case data of
        JObject kvs \<Rightarrow> Inr (map_of kvs ''result'' \<noteq> None)
      | JArray xs \<Rightarrow> Inr (JString ''result'' \<in> set xs)
      | JString s \<Rightarrow> Inr (sublist ''result'' s)
      | _ \<Rightarrow> Inl TypeError)"

text \<open>\<open>data["result"]\<close>: a list or a string cannot be indexed by a string.\<close>

definition py_getitem_result :: "json \<Rightarrow> py_error + json" where
  "py_getitem_result data =
     (case data of
        JObject kvs \<Rightarrow> (case map_of kvs ''result'' of None \<Rightarrow> Inl KeyError | Some v \<Rightarrow> Inr v)
      | _ \<Rightarrow> Inl TypeError)"

text \<open>\<open>d.get(key, default)\<close> and \<open>d.get(key)\<close> on a dict.\<close>

definition dict_get_default :: "(string \<times> json) list \<Rightarrow> string \<Rightarrow> json \<Rightarrow> json" where
  "dict_get_default kvs k d = (case map_of kvs k of None \<Rightarrow> d | Some v \<Rightarrow> v)"


text \<open>The builtin \<open>float(x)\<close>.  How Python reads a string as a float is not part of
  this repository: it is the parameter \<open>str_to_float\<close>, \<open>None\<close> where \<open>float\<close> raises
  \<open>ValueError\<close>.\<close>

definition py_float :: "(string \<Rightarrow> real option) \<Rightarrow> json \<Rightarrow> py_error + real" where
  "py_float str_to_float v =
     (case v of
        JNumber r \<Rightarrow> Inr r
      | JBool b \<Rightarrow> Inr (if b then 1 else 0)
      | JString s \<Rightarrow> (case str_to_float s of None \<Rightarrow> Inl ValueError | Some r \<Rightarrow> Inr r)
      | _ \<Rightarrow> Inl TypeError)"

subsection \<open>The strategy object\<close>

record trade =
  trade_id :: string
  trade_type :: string
  asset :: string
  trade_entry_price :: "real option"
  trade_take_profit :: "real option"
  quantity :: int
  trade_timestamp :: timestamp
  trade_confidence :: npfloat
  trade_reasoning :: reasoning

text \<open>\<open>ProfessionalTradingStrategy\<close>.  Its field \<open>prices\<close> is \<open>strategy_prices\<close> here
  (the engine has a field of the same name); \<open>websocket\<close> holds the number of the
  connection stored last.\<close>

record ProfessionalTradingStrategy =
  network :: string
  strategy_prices :: "real list"
  pending_trades :: "string \<rightharpoonup> trade"
  ai_agent :: AIAgent
  websocket :: "nat option"

definition ProfessionalTradingStrategy_init ::
    "string \<Rightarrow> py_error + ProfessionalTradingStrategy" where
  "ProfessionalTradingStrategy_init net =
     (case AIAgent_init 50 200 of
        Inl e \<Rightarrow> Inl e
      | Inr agent \<Rightarrow>
          Inr \<lparr>network = net, strategy_prices = [], pending_trades = Map.empty,
               ai_agent = agent, websocket = None\<rparr>)"

text \<open>The object that \<open>ProfessionalTradingStrategy()\<close> builds (see
  \<open>new_strategy_is_init\<close>).\<close>

definition new_strategy :: ProfessionalTradingStrategy where
  "new_strategy =
     \<lparr>network = ''devnet'', strategy_prices = [], pending_trades = Map.empty,
      ai_agent = \<lparr>short_window = 50, long_window = 200, prices = []\<rparr>,
      websocket = None\<rparr>"

subsection \<open>The receive and reconnect loop\<close>

definition MAX_RECONNECT_ATTEMPTS :: nat where
  "MAX_RECONNECT_ATTEMPTS = 5"

text \<open>The body of the inner \<open>while True\<close> after \<open>recv\<close> has returned \<open>msg\<close>: an
  exception of any statement leaves the body with that exception.\<close>

definition on_message ::
    "(string \<Rightarrow> real option) \<Rightarrow> frame \<Rightarrow> ProfessionalTradingStrategy
       \<Rightarrow> py_error + ProfessionalTradingStrategy" where
  "on_message str_to_float msg self =
     (case json_loads msg of
        Inl e \<Rightarrow> Inl e
      | Inr data \<Rightarrow>
        (case py_in_result data of
           Inl e \<Rightarrow> Inl e
         | Inr False \<Rightarrow> Inr self
         | Inr True \<Rightarrow>
           (case py_getitem_result data of
              Inl e \<Rightarrow> Inl e
            | Inr (JObject kvs) \<Rightarrow>
                (case py_float str_to_float (dict_get_default kvs ''price'' (JNumber 0)) of
                   Inl e \<Rightarrow> Inl e
                 | Inr price \<Rightarrow>
                     if price > 0 then
                       Inr (self\<lparr>strategy_prices := strategy_prices self @ [price],
                                 ai_agent := add_price price (ai_agent self)\<rparr>)
                     else Inr self)
            | Inr _ \<Rightarrow> Inr self)))"

text \<open>
  \<open>process_websocket_message\<close> as a transition system.  The loop is at one of the calls
  it awaits (\<open>websockets.connect\<close>, \<open>websocket.send\<close>, \<open>websocket.recv\<close>) or it has
  returned; an event is what the awaited call does.  \<open>connect_calls\<close> counts the calls of
  \<open>websockets.connect\<close> made so far; it is not a variable of the program.  Cancellation of
  the task is not modelled.
\<close>

datatype feed_loc = Connecting | Subscribing | Receiving | Returned bool

datatype feed_event =
    Connect_ok | Connect_raises
  | Send_ok | Send_raises
  | Recv frame | Recv_raises

record feed =
  strategy :: ProfessionalTradingStrategy
  reconnect_attempts :: nat
  loc :: feed_loc
  connect_calls :: nat

text \<open>The test of the outer \<open>while\<close>: either the next \<open>connect\<close> is called, or the loop
  is left and \<open>False\<close> returned.\<close>

definition loop_head :: "feed \<Rightarrow> feed" where
  "loop_head s =
     (if reconnect_attempts s < MAX_RECONNECT_ATTEMPTS
      then s\<lparr>loc := Connecting, connect_calls := connect_calls s + 1\<rparr>
      else s\<lparr>loc := Returned False\<rparr>)"

text \<open>The handler \<open>except Exception\<close>: the connection is left, the counter goes up by
  one and, after the delay, the outer test runs again.\<close>

definition on_exception :: "feed \<Rightarrow> feed" where
  "on_exception s = loop_head (s\<lparr>reconnect_attempts := reconnect_attempts s + 1\<rparr>)"

definition process_websocket_message :: "ProfessionalTradingStrategy \<Rightarrow> feed" where
  "process_websocket_message self =
     loop_head \<lparr>strategy = self, reconnect_attempts = 0, loc = Connecting, connect_calls = 0\<rparr>"

text \<open>One event.  An event that answers a call the loop is not waiting for cannot
  happen and leaves the state as it is.\<close>

definition feed_step :: "(string \<Rightarrow> real option) \<Rightarrow> feed \<Rightarrow> feed_event \<Rightarrow> feed" where
  "feed_step str_to_float s ev =
     (case (loc s, ev) of
        (Connecting, Connect_ok) \<Rightarrow>
          s\<lparr>strategy := (strategy s)\<lparr>websocket := Some (connect_calls s)\<rparr>,
            loc := Subscribing\<rparr>
      | (Connecting, Connect_raises) \<Rightarrow> on_exception s
      | (Subscribing, Send_ok) \<Rightarrow> s\<lparr>loc := Receiving\<rparr>
      | (Subscribing, Send_raises) \<Rightarrow> on_exception s
      | (Receiving, Recv msg) \<Rightarrow>
          (case on_message str_to_float msg (strategy s) of
             Inl e \<Rightarrow> on_exception s
           | Inr self \<Rightarrow> s\<lparr>strategy := self\<rparr>)
      | (Receiving, Recv_raises) \<Rightarrow> on_exception s
      | _ \<Rightarrow> s)"

fun feed_run :: "(string \<Rightarrow> real option) \<Rightarrow> feed \<Rightarrow> feed_event list \<Rightarrow> feed" where
  "feed_run str_to_float s [] = s"
| "feed_run str_to_float s (ev # evs) = feed_run str_to_float (feed_step str_to_float s ev) evs"


subsection \<open>Proposals and decisions\<close>







section \<open>The broker boundary: \<open>trading/alpaca_client.py\<close>\<close>

text \<open>An instance of \<open>Exception\<close> with its message.  Signals that are not
  \<open>Exception\<close>s (\<open>KeyboardInterrupt\<close>, \<open>SystemExit\<close>) are not broker failures and are
  not modelled.\<close>

datatype exception = Exception (message: string)

record order_request =
  symbol :: string
  qty :: int
  side :: string
  order_type :: string
  time_in_force :: string

text \<open>\<open>AlpacaClient.place_order\<close>.  \<open>submit_order\<close> is the REST client of the broker: it
  returns an order or raises.  The second component is what is printed.\<close>

definition place_order ::
    "(order_request \<Rightarrow> exception + 'order) \<Rightarrow> order_request
       \<Rightarrow> (exception + 'order option) \<times> string list" where
  "place_order submit_order req =
     (case submit_order req of
        Inr order \<Rightarrow> (Inr (Some order), [])
      | Inl e \<Rightarrow> (Inr None, [''Error placing order: '' @ message e]))"

section \<open>The indicator engine: theorems\<close>

subsection \<open>Insufficient data\<close>

text \<open>
  C2.  With fewer than \<open>long_window\<close> prices the recommendation is \<open>hold\<close> with
  confidence 0.0, the insufficient-data text and neither entry price nor take-profit.
\<close>

theorem insufficient_data_hold:
  assumes "int (length (prices self)) < long_window self"
  shows "fst (get_recommendation now self) =
           Inr \<lparr>action = ''hold'', reasoning = Text ''Insufficient data for prediction'',
                entry_price = None, take_profit = None, confidence = Fin 0,
                timestamp = now\<rparr>"
  using assms by (simp add: get_recommendation_def hold_without_data_def)

theorem insufficient_data_hold_witness:
  "int (length (prices \<lparr>short_window = 50, long_window = 200, prices = [1, 2]\<rparr>)) <
     long_window \<lparr>short_window = 50, long_window = 200, prices = [1, 2]\<rparr>
   \<and> fst (get_recommendation ''t'' \<lparr>short_window = 50, long_window = 200, prices = [1, 2]\<rparr>) =
       Inr \<lparr>action = ''hold'', reasoning = Text ''Insufficient data for prediction'',
            entry_price = None, take_profit = None, confidence = Fin 0,
            timestamp = ''t''\<rparr>"
  using insufficient_data_hold
    [of "\<lparr>short_window = 50, long_window = 200, prices = [1, 2]\<rparr>" "''t''"]
  by simp

subsection \<open>The slice and the two indexed reads\<close>





text \<open>Outside a valid configuration the query can raise, or hold for want of an
  average: a long window of 1 lets a single price through to \<open>self.prices[-2]\<close>, and a
  short window above the long one can exceed the history.\<close>

lemma single_price_raises:
  "get_recommendation now \<lparr>short_window = 1, long_window = 1, prices = [p]\<rparr> =
     (Inl IndexError, \<lparr>short_window = 1, long_window = 1, prices = [p]\<rparr>)"
  by (simp add: get_recommendation_def py_index_def)

lemma short_window_too_long_holds:
  "fst (get_recommendation now \<lparr>short_window = 3, long_window = 2, prices = [1, 2]\<rparr>) =
     Inr (hold_without_data ''Error calculating moving averages'' now)"
  by (simp add: get_recommendation_def py_index_def calculate_moving_average_def)

subsection \<open>The decision rule\<close>



subsection \<open>Confidence\<close>











subsection \<open>The scenario with windows 2 and 4\<close>

lemma six_ticks:
  "fold add_price [1, 1, 1, 1, 1.1, 1.2] \<lparr>short_window = 2, long_window = 4, prices = []\<rparr> =
     \<lparr>short_window = 2, long_window = 4, prices = [1, 1, 1, 1, 1.1, 1.2]\<rparr>"
  by (simp add: add_price_def)

text \<open>
  C7, as stated, fails in one value: after the six ticks the long average is the mean of
  the last four prices, 1.075, and not 1.05 (the mean of all six).
\<close>

theorem scenario_long_ma_counterexample:
  "fst (calculate_moving_average 4
         (fold add_price [1, 1, 1, 1, 1.1, 1.2]
            \<lparr>short_window = 2, long_window = 4, prices = []\<rparr>)) = Some (Fin 1.075)
   \<and> \<bar>1.075 - 1.05\<bar> = (0.025 :: real)
   \<and> fst (calculate_moving_average 4
         (fold add_price [1, 1, 1, 1, 1.1, 1.2]
            \<lparr>short_window = 2, long_window = 4, prices = []\<rparr>)) \<noteq> Some (Fin 1.05)"
  unfolding six_ticks
  by (simp add: calculate_moving_average_def py_slice_from_def np_mean_def)

text \<open>
  C7, amended.  With windows 2 and 4, after the prices 1.0, 1.0, 1.0, 1.0, 1.1, 1.2 the
  long average is 1.075 and the short average 1.15, and the recommendation is \<open>buy\<close>
  with entry price 1.2 and take-profit 1.26.
\<close>

theorem scenario_buy:
  "fst (calculate_moving_average 4
         (fold add_price [1, 1, 1, 1, 1.1, 1.2]
            \<lparr>short_window = 2, long_window = 4, prices = []\<rparr>)) = Some (Fin 1.075)
   \<and> fst (calculate_moving_average 2
         (fold add_price [1, 1, 1, 1, 1.1, 1.2]
            \<lparr>short_window = 2, long_window = 4, prices = []\<rparr>)) = Some (Fin 1.15)
   \<and> fst (get_recommendation now
         (fold add_price [1, 1, 1, 1, 1.1, 1.2]
            \<lparr>short_window = 2, long_window = 4, prices = []\<rparr>)) =
       Inr \<lparr>action = ''buy'', reasoning = Short_above (Fin 1.15) (Fin 1.075),
            entry_price = Some 1.2, take_profit = Some 1.26,
            confidence = Fin (331 / 430), timestamp = now\<rparr>"
  unfolding six_ticks
  by (simp add: get_recommendation_def py_index_def calculate_moving_average_def
      py_slice_from_def np_mean_def decide_action_def Let_def np_greater_def
      py_min_def py_max_def)

subsection \<open>Construction\<close>

text \<open>
  C8, as stated, fails: the constructor returns an engine for non-positive windows and
  for a short window that is not below the long one.
\<close>

theorem construction_unchecked_counterexample:
  "AIAgent_init 0 (- 3) = Inr \<lparr>short_window = 0, long_window = - 3, prices = []\<rparr>
   \<and> AIAgent_init 200 50 = Inr \<lparr>short_window = 200, long_window = 50, prices = []\<rparr>"
  by (simp add: AIAgent_init_def)

text \<open>
  C8, amended.  Construction never fails: for any two window sizes it returns an engine
  with exactly these windows and an empty price series.
\<close>

theorem construction_total:
  "\<exists>self. AIAgent_init sw lw = Inr self
      \<and> short_window self = sw \<and> long_window self = lw \<and> prices self = []"
  by (simp add: AIAgent_init_def)

subsection \<open>The query changes nothing\<close>

text \<open>
  C9.  \<open>get_recommendation\<close> returns the engine as it received it, price series and both
  windows included, so a second call sees what the first one saw.
\<close>

theorem recommendation_read_only:
  "snd (get_recommendation now self) = self
   \<and> prices (snd (get_recommendation now self)) = prices self
   \<and> short_window (snd (get_recommendation now self)) = short_window self
   \<and> long_window (snd (get_recommendation now self)) = long_window self
   \<and> get_recommendation later (snd (get_recommendation now self)) =
       get_recommendation later self"
proof -
  have ma: "snd (calculate_moving_average w a) = a" for w a
    by (simp add: calculate_moving_average_def)
  have "snd (get_recommendation now self) = self"
    using ma [of "short_window self" self] ma [of "long_window self" self]
    by (auto simp: get_recommendation_def split: sum.splits prod.splits option.splits)
  then show ?thesis by simp
qed

section \<open>The receive and reconnect loop: theorems\<close>

lemma new_strategy_is_init: "ProfessionalTradingStrategy_init ''devnet'' = Inr new_strategy"
  by (simp add: ProfessionalTradingStrategy_init_def AIAgent_init_def new_strategy_def)

subsection \<open>What every run maintains\<close>













subsection \<open>The attempt counter\<close>




subsection \<open>Inbound messages\<close>

lemma missing_price_dropped:
  assumes "map_of kvs ''price'' = None"
  shows "on_message sf (Json (JObject [(''result'', JObject kvs)])) self = Inr self"
  using assms
  by (simp add: on_message_def json_loads_def py_in_result_def py_getitem_result_def
      dict_get_default_def py_float_def)

lemma non_positive_price_dropped:
  assumes "r \<le> 0"
  shows "on_message sf (Json (JObject [(''result'', JObject [(''price'', JNumber r)])])) self
           = Inr self"
  using assms
  by (simp add: on_message_def json_loads_def py_in_result_def py_getitem_result_def
      dict_get_default_def py_float_def)

lemma positive_price_appended:
  assumes "0 < r"
  shows "on_message sf (Json (JObject [(''result'', JObject [(''price'', JNumber r)])])) self
           = Inr (self\<lparr>strategy_prices := strategy_prices self @ [r],
                        ai_agent := add_price r (ai_agent self)\<rparr>)"
  using assms
  by (simp add: on_message_def json_loads_def py_in_result_def py_getitem_result_def
      dict_get_default_def py_float_def)

lemma non_numeric_string_raises:
  assumes "sf txt = None"
  shows "on_message sf (Json (JObject [(''result'', JObject [(''price'', JString txt)])])) self
           = Inl ValueError"
  using assms
  by (simp add: on_message_def json_loads_def py_in_result_def py_getitem_result_def
      dict_get_default_def py_float_def)

lemma null_price_raises:
  "on_message sf (Json (JObject [(''result'', JObject [(''price'', JNull)])])) self
     = Inl TypeError"
  by (simp add: on_message_def json_loads_def py_in_result_def py_getitem_result_def
      dict_get_default_def py_float_def)

lemma raising_message_keeps_prices:
  assumes "on_message sf msg (strategy s) = Inl e"
  shows "strategy (feed_step sf s (Recv msg)) = strategy s"
  using assms
  by (cases "loc s") (simp_all add: feed_step_def on_exception_def loop_head_def)

lemma raising_message_reconnects:
  assumes "on_message sf msg (strategy s) = Inl e" and "loc s = Receiving"
  shows "feed_step sf s (Recv msg) = on_exception s"
  using assms by (simp add: feed_step_def)

text \<open>
  C5 says that a message whose price is missing, non-numeric or non-positive is dropped
  without ending the connection.  That holds for a missing and for a non-positive price
  (\<open>missing_price_dropped\<close>, \<open>non_positive_price_dropped\<close>), and no such price is ever
  appended (\<open>raising_message_keeps_prices\<close>).  A non-numeric price, here \<open>null\<close>, makes
  \<open>float\<close> raise: the handler around the whole connection catches it, the connection is
  left, the counter goes up and \<open>connect\<close> is called again; five such messages end the
  loop for good.
\<close>

theorem null_price_ends_connection:
  "loc (feed_run sf (process_websocket_message self)
          [Connect_ok, Send_ok,
           Recv (Json (JObject [(''result'', JObject [(''price'', JNull)])]))]) = Connecting
   \<and> reconnect_attempts (feed_run sf (process_websocket_message self)
          [Connect_ok, Send_ok,
           Recv (Json (JObject [(''result'', JObject [(''price'', JNull)])]))]) = 1
   \<and> connect_calls (feed_run sf (process_websocket_message self)
          [Connect_ok, Send_ok,
           Recv (Json (JObject [(''result'', JObject [(''price'', JNull)])]))]) = 2
   \<and> strategy_prices (strategy (feed_run sf (process_websocket_message self)
          [Connect_ok, Send_ok,
           Recv (Json (JObject [(''result'', JObject [(''price'', JNull)])]))]))
       = strategy_prices self
   \<and> loc (feed_run sf (process_websocket_message self)
          (concat (replicate 5 [Connect_ok, Send_ok,
             Recv (Json (JObject [(''result'', JObject [(''price'', JNull)])]))])))
       = Returned False"
  by (simp add: process_websocket_message_def loop_head_def feed_step_def on_exception_def
      MAX_RECONNECT_ATTEMPTS_def null_price_raises numeral_eq_Suc)

section \<open>Decisions on proposals: theorems\<close>





section \<open>The broker boundary: theorem\<close>

text \<open>
  C10.  \<open>place_order\<close> never raises: it returns the order that \<open>submit_order\<close>
  returned, or \<open>None\<close> when \<open>submit_order\<close> raised, whatever the failure was; the
  failure's message is only printed.
\<close>

theorem place_order_never_raises:
  "fst (place_order submit_order req) =
     Inr (case submit_order req of Inr order \<Rightarrow> Some order | Inl e \<Rightarrow> None)
   \<and> snd (place_order submit_order req) =
     (case submit_order req of
        Inr order \<Rightarrow> []
      | Inl e \<Rightarrow> [''Error placing order: '' @ message e])"
  by (simp add: place_order_def split: sum.splits)

end
